theory Spec2Isabelle
  imports Main "HOL-Library.Word" "HOL-Library.Sublist"
begin

section \<open>The inference request helper of the prompt-engineering notebook\<close>

text \<open>
  The notebook \<^verbatim>\<open>prompt_engineering.ipynb\<close> defines one function,
  \<^verbatim>\<open>query_hugging_face(prompt, max_length = 200, temperature = 0.7)\<close>. It reads the
  module globals \<^verbatim>\<open>MODEL_NAME\<close> and \<^verbatim>\<open>API_KEY\<close>, prints a debug line, posts one
  request through \<^verbatim>\<open>requests.post\<close> and maps the exceptions of the \<^verbatim>\<open>try\<close> block that
  its \<^verbatim>\<open>except\<close> clauses catch to a text. The embedding below follows the function line by line. The network is a
  parameter (a function from the request to what \<^verbatim>\<open>requests.post\<close> does with it), the
  globals, standard output and the list of requests sent are an explicit state, and an
  exception is a value.
\<close>

subsection \<open>Python values\<close>

text \<open>
  The values the function handles: the payload it builds, the objects that
  \<^verbatim>\<open>response.json()\<close> yields, and the value it returns. A \<^verbatim>\<open>float\<close> is an IEEE-754
  double, kept as its bit pattern: the function passes floats on and never computes with
  them. A \<^verbatim>\<open>dict\<close> is the list of its items; the keys of a dict are distinct, so the
  order of lookup does not matter.
\<close>

datatype pyval =
    PyNone
  | PyBool bool
  | PyInt int
  | PyFloat "64 word"
  | PyStr string
  | PyList "pyval list"
  | PyDict "(string \<times> pyval) list"

fun is_str :: "pyval \<Rightarrow> bool" where
  "is_str (PyStr _) = True"
| "is_str _ = False"

text \<open>The name Python prints for the type of a value, as in its error messages.\<close>

fun type_name :: "pyval \<Rightarrow> string" where
  "type_name PyNone = ''NoneType''"
| "type_name (PyBool _) = ''bool''"
| "type_name (PyInt _) = ''int''"
| "type_name (PyFloat _) = ''float''"
| "type_name (PyStr _) = ''str''"
| "type_name (PyList _) = ''list''"
| "type_name (PyDict _) = ''dict''"

subsection \<open>Exceptions\<close>

text \<open>
  An \<^verbatim>\<open>except C\<close> clause catches the instances of \<^verbatim>\<open>C\<close> and of its subclasses, so the
  classes are modelled with their bases. The classes are those of
  \<^verbatim>\<open>requests.exceptions\<close> and the built-in ones that lines 140 and 141 can raise:
  \<^verbatim>\<open>
  class RequestException(IOError)
  class InvalidJSONError(RequestException)
  class JSONDecodeError(InvalidJSONError, json.JSONDecodeError)
  class HTTPError(RequestException)
  class ConnectionError(RequestException)
  class ProxyError(ConnectionError)
  class SSLError(ConnectionError)
  class Timeout(RequestException)
  class ConnectTimeout(ConnectionError, Timeout)
  class ReadTimeout(Timeout)
  class TooManyRedirects(RequestException)
  \<close>
  \<open>mro\<close> lists a class with all its ancestors up to \<^verbatim>\<open>BaseException\<close>, in method
  resolution order (\<^verbatim>\<open>json.JSONDecodeError\<close>, a \<^verbatim>\<open>ValueError\<close>, is left out of the list of
  the class that inherits from it). \<^verbatim>\<open>KeyboardInterrupt\<close> and \<^verbatim>\<open>SystemExit\<close> derive from
  \<^verbatim>\<open>BaseException\<close> and not from \<^verbatim>\<open>Exception\<close>: raised while \<^verbatim>\<open>requests.post\<close> runs,
  they are instances of no class that the \<^verbatim>\<open>except\<close> clauses of the function name.
\<close>

datatype exc_class =
    BaseException
  | KeyboardInterrupt
  | SystemExit
  | Exception
  | OSError
  | ValueError
  | LookupError
  | IndexError
  | KeyError
  | TypeError
  | AttributeError
  | RequestException
  | InvalidJSONError
  | JSONDecodeError
  | HTTPError
  | ConnectionError
  | ProxyError
  | SSLError
  | Timeout
  | ConnectTimeout
  | ReadTimeout
  | TooManyRedirects

fun mro :: "exc_class \<Rightarrow> exc_class list" where
  "mro BaseException = [BaseException]"
| "mro KeyboardInterrupt = [KeyboardInterrupt, BaseException]"
| "mro SystemExit = [SystemExit, BaseException]"
| "mro Exception = [Exception, BaseException]"
| "mro OSError = [OSError, Exception, BaseException]"
| "mro ValueError = [ValueError, Exception, BaseException]"
| "mro LookupError = [LookupError, Exception, BaseException]"
| "mro IndexError = [IndexError, LookupError, Exception, BaseException]"
| "mro KeyError = [KeyError, LookupError, Exception, BaseException]"
| "mro TypeError = [TypeError, Exception, BaseException]"
| "mro AttributeError = [AttributeError, Exception, BaseException]"
| "mro RequestException = [RequestException, OSError, Exception, BaseException]"
| "mro InvalidJSONError = [InvalidJSONError, RequestException, OSError, Exception, BaseException]"
| "mro JSONDecodeError =
     [JSONDecodeError, InvalidJSONError, RequestException, OSError, ValueError, Exception,
      BaseException]"
| "mro HTTPError = [HTTPError, RequestException, OSError, Exception, BaseException]"
| "mro ConnectionError = [ConnectionError, RequestException, OSError, Exception, BaseException]"
| "mro ProxyError =
     [ProxyError, ConnectionError, RequestException, OSError, Exception, BaseException]"
| "mro SSLError = [SSLError, ConnectionError, RequestException, OSError, Exception, BaseException]"
| "mro Timeout = [Timeout, RequestException, OSError, Exception, BaseException]"
| "mro ConnectTimeout =
     [ConnectTimeout, ConnectionError, Timeout, RequestException, OSError, Exception,
      BaseException]"
| "mro ReadTimeout = [ReadTimeout, Timeout, RequestException, OSError, Exception, BaseException]"
| "mro TooManyRedirects = [TooManyRedirects, RequestException, OSError, Exception, BaseException]"

text \<open>An exception: its class and the text \<^verbatim>\<open>str(e)\<close> gives.\<close>

record exn =
  cls :: exc_class
  str :: string

definition isinstance :: "exn \<Rightarrow> exc_class \<Rightarrow> bool" where
  "isinstance e c = List.member (mro (cls e)) c"

definition raise :: "exc_class \<Rightarrow> string \<Rightarrow> exn + 'a" where
  "raise c m = Inl \<lparr>cls = c, str = m\<rparr>"

subsection \<open>Requests and responses\<close>

text \<open>
  The keyword arguments of \<^verbatim>\<open>requests.post(API_URL, headers=headers, json=payload,
  timeout=10)\<close>, and the parts of a \<^verbatim>\<open>requests.Response\<close> that the function and
  \<^verbatim>\<open>raise_for_status\<close> read. \<open>json_result\<close> is what \<^verbatim>\<open>response.json()\<close> does: the parsed
  body, or the exception for a body that is not JSON.
\<close>

record request =
  req_method :: string
  req_url :: string
  req_headers :: "(string \<times> string) list"
  req_json :: pyval
  req_timeout :: int

record response =
  status_code :: int
  reason :: string
  url :: string
  json_result :: "exn + pyval"

type_synonym transport = "request \<Rightarrow> exn + response"

text \<open>Decimal text of an integer, as an f-string prints it.\<close>

fun str_nat :: "nat \<Rightarrow> string" where
  "str_nat n =
     (if n < 10 then [char_of (48 + n)] else str_nat (n div 10) @ [char_of (48 + n mod 10)])"

declare str_nat.simps [simp del]

definition str_int :: "int \<Rightarrow> string" where
  "str_int i = (if i < 0 then CHR ''-'' # str_nat (nat (- i)) else str_nat (nat i))"

text \<open>
  \<^verbatim>\<open>Response.raise_for_status\<close> of the requests library raises for the 4xx and 5xx
  codes and for no other:
  \<^verbatim>\<open>
  if 400 <= self.status_code < 500:
      http_error_msg = f"{self.status_code} Client Error: {reason} for url: {self.url}"
  elif 500 <= self.status_code < 600:
      http_error_msg = f"{self.status_code} Server Error: {reason} for url: {self.url}"
  if http_error_msg:
      raise HTTPError(http_error_msg, response=self)
  \<close>
\<close>

definition raise_for_status :: "response \<Rightarrow> exn + unit" where
  "raise_for_status r =
     (if 400 \<le> status_code r \<and> status_code r < 500 then
        raise HTTPError
          (str_int (status_code r) @ '' Client Error: '' @ reason r @ '' for url: '' @ url r)
      else if 500 \<le> status_code r \<and> status_code r < 600 then
        raise HTTPError
          (str_int (status_code r) @ '' Server Error: '' @ reason r @ '' for url: '' @ url r)
      else Inr ())"

subsection \<open>The two operations of line 141\<close>

text \<open>
  \<^verbatim>\<open>response_json[0]\<close>: the first element of a list, the first character of a string,
  \<^verbatim>\<open>IndexError\<close> when either is empty, \<^verbatim>\<open>KeyError(0)\<close> on a dict (a parsed JSON object has
  string keys only), \<^verbatim>\<open>TypeError\<close> on the other values. A string here is a list of
  bytes, so the first character is the first byte; line 141 goes on to call \<^verbatim>\<open>.get\<close> on
  it, which fails on every string alike.
\<close>

fun getitem0 :: "pyval \<Rightarrow> exn + pyval" where
  "getitem0 (PyList []) = raise IndexError ''list index out of range''"
| "getitem0 (PyList (x # xs)) = Inr x"
| "getitem0 (PyStr []) = raise IndexError ''string index out of range''"
| "getitem0 (PyStr (c # cs)) = Inr (PyStr [c])"
| "getitem0 (PyDict kvs) = raise KeyError ''0''"
| "getitem0 v =
     raise TypeError ([CHR 0x27] @ type_name v @ [CHR 0x27] @ '' object is not subscriptable'')"

text \<open>\<^verbatim>\<open>x.get(key, default)\<close>: a method of dicts only.\<close>

fun get :: "pyval \<Rightarrow> string \<Rightarrow> pyval \<Rightarrow> exn + pyval" where
  "get (PyDict kvs) k d = (case map_of kvs k of Some v \<Rightarrow> Inr v | None \<Rightarrow> Inr d)"
| "get v k d =
     raise AttributeError
       ([CHR 0x27] @ type_name v @ [CHR 0x27] @ '' object has no attribute '' @
        [CHR 0x27] @ ''get'' @ [CHR 0x27])"

subsection \<open>State\<close>

text \<open>
  The module globals the function reads, and the two things it does to the world: the
  lines printed and the requests handed to \<^verbatim>\<open>requests.post\<close>, oldest first.
\<close>

record state =
  API_KEY :: string
  MODEL_NAME :: string
  stdout :: "string list"
  posts :: "request list"

definition print :: "string \<Rightarrow> state \<Rightarrow> state" where
  "print line s = s\<lparr>stdout := stdout s @ [line]\<rparr>"

definition requests_post :: "transport \<Rightarrow> request \<Rightarrow> state \<Rightarrow> (exn + response) \<times> state" where
  "requests_post net req s = (net req, s\<lparr>posts := posts s @ [req]\<rparr>)"

subsection \<open>query_hugging_face\<close>

text \<open>
  Lines 124 to 134: the URL, the header and the payload. An argument the caller omits is
  \<open>None\<close> and takes the default of the signature: 200, and 0.7 (the double
  \<open>0x3FE6666666666666\<close>).
\<close>

definition build_request :: "state \<Rightarrow> string \<Rightarrow> int option \<Rightarrow> 64 word option \<Rightarrow> request" where
  "build_request s prompt max_length_arg temperature_arg =
     (let max_length = (case max_length_arg of None \<Rightarrow> 200 | Some n \<Rightarrow> n);
          temperature = (case temperature_arg of None \<Rightarrow> 0x3FE6666666666666 | Some t \<Rightarrow> t);
          API_URL = ''https://api-inference.huggingface.co/models/'' @ MODEL_NAME s;
          headers = [(''Authorization'', ''Bearer '' @ API_KEY s)];
          payload = PyDict
            [(''inputs'', PyStr prompt),
             (''parameters'', PyDict
                [(''max_new_tokens'', PyInt max_length),
                 (''temperature'', PyFloat temperature)])]
      in \<lparr>req_method = ''POST'', req_url = API_URL, req_headers = headers,
          req_json = payload, req_timeout = 10\<rparr>)"

text \<open>The debug line of line 125; the magnifying glass is U+1F50D, four bytes in UTF-8.\<close>

definition debug_line :: "state \<Rightarrow> string" where
  "debug_line s =
     [CHR 0xF0, CHR 0x9F, CHR 0x94, CHR 0x8D] @ '' Debug: API URL - '' @
     ''https://api-inference.huggingface.co/models/'' @ MODEL_NAME s"

text \<open>Lines 137 to 141, the body of the \<^verbatim>\<open>try\<close>: the first exception ends it.\<close>

definition try_body :: "transport \<Rightarrow> request \<Rightarrow> state \<Rightarrow> (exn + pyval) \<times> state" where
  "try_body net req s =
     (case requests_post net req s of
        (Inl e, s') \<Rightarrow> (Inl e, s')
      | (Inr response, s') \<Rightarrow>
          (case raise_for_status response of
             Inl e \<Rightarrow> (Inl e, s')
           | Inr _ \<Rightarrow>
               (case json_result response of
                  Inl e \<Rightarrow> (Inl e, s')
                | Inr response_json \<Rightarrow>
                    (case getitem0 response_json of
                       Inl e \<Rightarrow> (Inl e, s')
                     | Inr first \<Rightarrow>
                         (get first ''generated_text'' (PyStr ''No response generated.''), s')))))"

text \<open>
  Lines 143 to 153, the \<^verbatim>\<open>except\<close> clauses in their order: the first clause whose class
  the exception is an instance of handles it, and an exception that no clause catches
  goes on to the caller.
\<close>

definition handlers :: "exn \<Rightarrow> exn + pyval" where
  "handlers e =
     (if isinstance e Timeout then
        Inr (PyStr ''Error: The server took too long to respond. Try again later.'')
      else if isinstance e ConnectionError then
        Inr (PyStr
          ''Error: Could not connect to Hugging Face API. Check your internet or try later.'')
      else if isinstance e HTTPError then Inr (PyStr (''HTTP Error: '' @ str e))
      else if isinstance e Exception then Inr (PyStr (''Error: '' @ str e))
      else Inl e)"

text \<open>
  The function: \<open>Inr\<close> is the value returned, \<open>Inl\<close> an exception that leaves the
  function.
\<close>

definition query_hugging_face ::
  "transport \<Rightarrow> string \<Rightarrow> int option \<Rightarrow> 64 word option \<Rightarrow> state \<Rightarrow> (exn + pyval) \<times> state" where
  "query_hugging_face net prompt max_length_arg temperature_arg s =
     (let req = build_request s prompt max_length_arg temperature_arg;
          s1 = print (debug_line s) s
      in case try_body net req s1 of
           (Inr generated_text, s2) \<Rightarrow> (Inr generated_text, s2)
         | (Inl e, s2) \<Rightarrow> (handlers e, s2))"

subsection \<open>Stub transports and concrete inputs\<close>

text \<open>
  A stub transport answers every request with the same outcome. The state of the
  notebook when the function is first called: the model name is the one its output
  shows, the key (kept out of the repository) is a placeholder.
\<close>

definition stub :: "exn + response \<Rightarrow> transport" where
  "stub outcome req = outcome"

definition notebook_state :: state where
  "notebook_state =
     \<lparr>API_KEY = ''hf_key'', MODEL_NAME = ''tiiuae/falcon-7b-instruct'',
      stdout = [], posts = []\<rparr>"

definition http_response :: "int \<Rightarrow> string \<Rightarrow> pyval \<Rightarrow> response" where
  "http_response code text body =
     \<lparr>status_code = code, reason = text,
      url = ''https://api-inference.huggingface.co/models/tiiuae/falcon-7b-instruct'',
      json_result = Inr body\<rparr>"

section \<open>Properties\<close>

subsection \<open>What a call returns and what it does\<close>

lemma handlers_returns_text:
  assumes "isinstance e Exception"
  shows "\<exists>text. handlers e = Inr (PyStr text)"
  using assms by (simp add: handlers_def)

lemma handlers_reraises:
  assumes "\<not> isinstance e Exception"
  shows "handlers e = Inl e"
proof -
  have "\<not> isinstance e Timeout" "\<not> isinstance e ConnectionError" "\<not> isinstance e HTTPError"
    using assms by (cases "cls e"; simp add: isinstance_def)+
  then show ?thesis using assms by (simp add: handlers_def)
qed

lemma raise_for_status_Exception:
  assumes "raise_for_status r = Inl e"
  shows "isinstance e Exception"
  using assms by (auto simp: raise_for_status_def raise_def isinstance_def split: if_splits)

lemma getitem0_Exception:
  assumes "getitem0 j = Inl e"
  shows "isinstance e Exception"
  using assms by (cases j rule: getitem0.cases) (auto simp: raise_def isinstance_def)

lemma get_Exception:
  assumes "get x k d = Inl e"
  shows "isinstance e Exception"
  using assms by (cases x) (auto simp: raise_def isinstance_def split: option.splits)

lemma fst_query_raised:
  assumes "net (build_request s prompt ml t) = Inl e"
  shows "fst (query_hugging_face net prompt ml t s) = handlers e"
  using assms by (simp add: query_hugging_face_def try_body_def requests_post_def Let_def)

lemma fst_query_response:
  assumes "net (build_request s prompt ml t) = Inr r"
  shows "fst (query_hugging_face net prompt ml t s) =
     (case raise_for_status r of
        Inl e \<Rightarrow> handlers e
      | Inr _ \<Rightarrow>
          (case json_result r of
             Inl e \<Rightarrow> handlers e
           | Inr response_json \<Rightarrow>
               (case getitem0 response_json of
                  Inl e \<Rightarrow> handlers e
                | Inr first \<Rightarrow>
                    (case get first ''generated_text'' (PyStr ''No response generated.'') of
                       Inl e \<Rightarrow> handlers e
                     | Inr v \<Rightarrow> Inr v))))"
  using assms
  by (simp add: query_hugging_face_def try_body_def requests_post_def Let_def
      split: sum.splits)

lemma snd_query:
  "snd (query_hugging_face net prompt ml t s) =
     s\<lparr>stdout := stdout s @ [debug_line s],
       posts := posts s @ [build_request s prompt ml t]\<rparr>"
  by (simp add: query_hugging_face_def try_body_def requests_post_def print_def Let_def
      split: sum.splits)

lemma success_status_passes:
  assumes "200 \<le> status_code r" and "status_code r < 300"
  shows "raise_for_status r = Inr ()"
  using assms by (simp add: raise_for_status_def)

subsection \<open>The generated text\<close>

text \<open>
  C1. When the transport answers with a success status (2xx) and a body that parses to a
  list whose first element is an object with a \<^verbatim>\<open>generated_text\<close> field, the function
  returns exactly the value of that field, for every prompt and every choice of the
  generation parameters.
\<close>

theorem generated_text_returned:
  assumes "net (build_request s prompt ml t) = Inr r"
    and "200 \<le> status_code r" and "status_code r < 300"
    and "json_result r = Inr (PyList (PyDict kvs # rest))"
    and "map_of kvs ''generated_text'' = Some v"
  shows "fst (query_hugging_face net prompt ml t s) = Inr v"
  using assms by (simp add: fst_query_response success_status_passes)

text \<open>
  The scenario of the specification: the prompt \<^verbatim>\<open>2+2=?\<close> with 50 new tokens and
  temperature 0.0, against a stub that answers \<^verbatim>\<open>[{"generated_text": "2+2=4"}]\<close>.
\<close>

theorem generated_text_returned_witness:
  "fst (query_hugging_face
      (stub (Inr (http_response 200 ''OK''
         (PyList [PyDict [(''generated_text'', PyStr ''2+2=4'')]]))))
      ''2+2=?'' (Some 50) (Some 0) notebook_state) = Inr (PyStr ''2+2=4'')"
  using generated_text_returned
    [of "stub (Inr (http_response 200 ''OK''
           (PyList [PyDict [(''generated_text'', PyStr ''2+2=4'')]])))"
      notebook_state "''2+2=?''" "Some 50" "Some 0"
      "http_response 200 ''OK'' (PyList [PyDict [(''generated_text'', PyStr ''2+2=4'')]])"
      "[(''generated_text'', PyStr ''2+2=4'')]" "[]" "PyStr ''2+2=4''"]
  by (simp add: stub_def http_response_def)

text \<open>
  C4, as stated, fails: the first element of the list need not be an object. The number
  in the body \<^verbatim>\<open>[5]\<close> has no \<^verbatim>\<open>generated_text\<close> field either, but \<^verbatim>\<open>.get\<close> is a method of
  dicts: line 141 raises \<^verbatim>\<open>AttributeError\<close>, the last \<^verbatim>\<open>except\<close> clause catches it, and the
  function returns \<^verbatim>\<open>Error: 'int' object has no attribute 'get'\<close> and not the placeholder.
\<close>

theorem non_object_element_counterexample:
  "fst (query_hugging_face (stub (Inr (http_response 200 ''OK'' (PyList [PyInt 5]))))
      ''hello'' None None notebook_state) =
    Inr (PyStr (''Error: '' @ [CHR 0x27] @ ''int'' @ [CHR 0x27] @
      '' object has no attribute '' @ [CHR 0x27] @ ''get'' @ [CHR 0x27])) \<and>
   fst (query_hugging_face (stub (Inr (http_response 200 ''OK'' (PyList [PyInt 5]))))
      ''hello'' None None notebook_state) \<noteq> Inr (PyStr ''No response generated.'')"
  by (simp add: fst_query_response stub_def http_response_def raise_for_status_def
      raise_def handlers_def isinstance_def)

text \<open>
  C4, amended. When the transport answers with a success status and a body that parses to
  a list whose first element is an object without a \<^verbatim>\<open>generated_text\<close> field, the
  function returns the placeholder \<^verbatim>\<open>No response generated.\<close>
\<close>

theorem placeholder_when_field_absent:
  assumes "net (build_request s prompt ml t) = Inr r"
    and "200 \<le> status_code r" and "status_code r < 300"
    and "json_result r = Inr (PyList (PyDict kvs # rest))"
    and "map_of kvs ''generated_text'' = None"
  shows "fst (query_hugging_face net prompt ml t s) = Inr (PyStr ''No response generated.'')"
  using assms by (simp add: fst_query_response success_status_passes)

theorem placeholder_when_field_absent_witness:
  "fst (query_hugging_face
      (stub (Inr (http_response 200 ''OK'' (PyList [PyDict [(''score'', PyInt 1)]]))))
      ''hello'' None None notebook_state) = Inr (PyStr ''No response generated.'')"
  using placeholder_when_field_absent
    [of "stub (Inr (http_response 200 ''OK'' (PyList [PyDict [(''score'', PyInt 1)]])))"
      notebook_state "''hello''" None None
      "http_response 200 ''OK'' (PyList [PyDict [(''score'', PyInt 1)]])"
      "[(''score'', PyInt 1)]" "[]"]
  by (simp add: stub_def http_response_def)

text \<open>
  C10. When the transport answers with a success status and a body that parses to the
  empty list, \<^verbatim>\<open>response_json[0]\<close> raises \<^verbatim>\<open>IndexError\<close>, the last \<^verbatim>\<open>except\<close> clause
  catches it, and the function returns \<^verbatim>\<open>Error: \<close> followed by the text of the
  exception, not the placeholder.
\<close>

theorem empty_list_is_generic_error:
  assumes "net (build_request s prompt ml t) = Inr r"
    and "200 \<le> status_code r" and "status_code r < 300"
    and "json_result r = Inr (PyList [])"
  shows "fst (query_hugging_face net prompt ml t s) =
      Inr (PyStr (''Error: '' @ ''list index out of range'')) \<and>
    fst (query_hugging_face net prompt ml t s) \<noteq> Inr (PyStr ''No response generated.'')"
  using assms
  by (simp add: fst_query_response success_status_passes raise_def handlers_def
      isinstance_def)

theorem empty_list_is_generic_error_witness:
  "fst (query_hugging_face (stub (Inr (http_response 200 ''OK'' (PyList [])))) ''hello''
      None None notebook_state) = Inr (PyStr ''Error: list index out of range'')"
  using empty_list_is_generic_error
    [of "stub (Inr (http_response 200 ''OK'' (PyList [])))" notebook_state "''hello''"
      None None "http_response 200 ''OK'' (PyList [])"]
  by (simp add: stub_def http_response_def)

subsection \<open>Failures of the transport\<close>

text \<open>
  C5. When the transport raises a timeout (an instance of \<^verbatim>\<open>requests.exceptions.Timeout\<close>,
  which includes \<^verbatim>\<open>ConnectTimeout\<close> and \<^verbatim>\<open>ReadTimeout\<close>), the function returns the fixed
  timeout message, for every prompt and every choice of the parameters.
\<close>

theorem timeout_message:
  assumes "net (build_request s prompt ml t) = Inl e"
    and "isinstance e Timeout"
  shows "fst (query_hugging_face net prompt ml t s) =
    Inr (PyStr ''Error: The server took too long to respond. Try again later.'')"
  using assms by (simp add: fst_query_raised handlers_def)

text \<open>The scenario of the specification: the prompt \<^verbatim>\<open>hello\<close> against a stub that times out.\<close>

theorem timeout_message_witness:
  "isinstance \<lparr>cls = Timeout, str = ''timed out''\<rparr> Timeout \<and>
   fst (query_hugging_face (stub (raise Timeout ''timed out'')) ''hello'' None None
      notebook_state) =
    Inr (PyStr ''Error: The server took too long to respond. Try again later.'')"
  using timeout_message
    [of "stub (raise Timeout ''timed out'')" notebook_state "''hello''" None None
      "\<lparr>cls = Timeout, str = ''timed out''\<rparr>"]
  by (simp add: stub_def raise_def isinstance_def)

text \<open>
  C6, as stated, fails: \<^verbatim>\<open>ConnectTimeout\<close> (the connection to the service could not be
  set up within the timeout) is a \<^verbatim>\<open>ConnectionError\<close> of the requests library and a
  \<^verbatim>\<open>Timeout\<close> as well. The \<^verbatim>\<open>except Timeout\<close> clause comes first, so the function returns
  the timeout message and not the connection-error message.
\<close>

theorem connect_timeout_counterexample:
  "isinstance \<lparr>cls = ConnectTimeout, str = ''connect timed out''\<rparr> ConnectionError \<and>
   fst (query_hugging_face (stub (raise ConnectTimeout ''connect timed out'')) ''hello''
      None None notebook_state) =
    Inr (PyStr ''Error: The server took too long to respond. Try again later.'') \<and>
   fst (query_hugging_face (stub (raise ConnectTimeout ''connect timed out'')) ''hello''
      None None notebook_state) \<noteq>
    Inr (PyStr
      ''Error: Could not connect to Hugging Face API. Check your internet or try later.'')"
  by (simp add: fst_query_raised stub_def raise_def handlers_def isinstance_def)

text \<open>
  C6, amended. When the transport raises a connection error that is not also a timeout,
  the function returns the fixed connection-error message, for every input.
\<close>

theorem connection_error_message:
  assumes "net (build_request s prompt ml t) = Inl e"
    and "isinstance e ConnectionError"
    and "\<not> isinstance e Timeout"
  shows "fst (query_hugging_face net prompt ml t s) =
    Inr (PyStr
      ''Error: Could not connect to Hugging Face API. Check your internet or try later.'')"
  using assms by (simp add: fst_query_raised handlers_def)

theorem connection_error_message_witness:
  "isinstance \<lparr>cls = ConnectionError, str = ''refused''\<rparr> ConnectionError \<and>
   \<not> isinstance \<lparr>cls = ConnectionError, str = ''refused''\<rparr> Timeout \<and>
   fst (query_hugging_face (stub (raise ConnectionError ''refused'')) ''hello'' None None
      notebook_state) =
    Inr (PyStr
      ''Error: Could not connect to Hugging Face API. Check your internet or try later.'')"
  using connection_error_message
    [of "stub (raise ConnectionError ''refused'')" notebook_state "''hello''" None None
      "\<lparr>cls = ConnectionError, str = ''refused''\<rparr>"]
  by (simp add: stub_def raise_def isinstance_def)

subsection \<open>HTTP error statuses\<close>

text \<open>
  C7, as stated, fails: \<^verbatim>\<open>raise_for_status\<close> raises for the codes 400 to 599 only. A
  status that is not 2xx and not an error of that range, such as 300, passes it; the
  body is then read as on success. Here the function returns the generated text of the
  body, which holds nothing of the status text.
\<close>

theorem redirect_status_counterexample:
  "fst (query_hugging_face
      (stub (Inr (http_response 300 ''Multiple Choices''
         (PyList [PyDict [(''generated_text'', PyStr ''hi'')]]))))
      ''hello'' None None notebook_state) = Inr (PyStr ''hi'') \<and>
   \<not> sublist ''Multiple Choices'' ''hi''"
  by (simp add: fst_query_response stub_def http_response_def raise_for_status_def
      sublist_code)

lemma http_error_text:
  assumes "net (build_request s prompt ml t) = Inr r"
    and "400 \<le> status_code r" and "status_code r < 600"
  shows "\<exists>text. fst (query_hugging_face net prompt ml t s) = Inr (PyStr text) \<and>
     text = ''HTTP Error: '' @ str_int (status_code r) @
       (if status_code r < 500 then '' Client Error: '' else '' Server Error: '') @
       reason r @ '' for url: '' @ url r \<and>
     sublist (reason r) text"
proof -
  let ?kind = "if status_code r < 500 then '' Client Error: '' else '' Server Error: ''"
  let ?detail = "str_int (status_code r) @ ?kind @ reason r @ '' for url: '' @ url r"
  have "raise_for_status r = raise HTTPError ?detail"
    using assms(2,3) by (simp add: raise_for_status_def)
  then have "fst (query_hugging_face net prompt ml t s) =
      Inr (PyStr (''HTTP Error: '' @ ?detail))"
    using assms(1) by (simp add: fst_query_response raise_def handlers_def isinstance_def)
  moreover have "sublist (reason r) (''HTTP Error: '' @ ?detail)"
    unfolding sublist_def
    by (rule exI [of _ "''HTTP Error: '' @ str_int (status_code r) @ ?kind"],
        rule exI [of _ "'' for url: '' @ url r"]) simp
  ultimately show ?thesis by simp
qed

lemma other_status_passes:
  assumes "status_code r < 400 \<or> 600 \<le> status_code r"
  shows "raise_for_status r = Inr ()"
  using assms by (auto simp: raise_for_status_def)

lemma other_status_like_success:
  assumes "net (build_request s prompt ml t) = Inr r"
    and "status_code r < 400 \<or> 600 \<le> status_code r"
  shows "fst (query_hugging_face net prompt ml t s) =
    fst (query_hugging_face (stub (Inr (r\<lparr>status_code := 200\<rparr>))) prompt ml t s)"
proof -
  have "raise_for_status r = Inr ()"
    using assms(2) by (rule other_status_passes)
  moreover have "raise_for_status (r\<lparr>status_code := 200\<rparr>) = Inr ()"
    by (simp add: raise_for_status_def)
  moreover have "stub (Inr (r\<lparr>status_code := 200\<rparr>)) (build_request s prompt ml t) =
      Inr (r\<lparr>status_code := 200\<rparr>)"
    by (simp add: stub_def)
  ultimately show ?thesis
    using assms(1) by (simp add: fst_query_response)
qed

text \<open>
  C7, amended. When the service answers with a 4xx or 5xx status, the function returns
  \<^verbatim>\<open>HTTP Error: \<close> followed by the message of the \<^verbatim>\<open>HTTPError\<close>: the code,
  \<^verbatim>\<open>Client Error\<close> or \<^verbatim>\<open>Server Error\<close>, the status text and the URL. The result
  contains the status text and does not depend on the body. With every other status,
  below 400 or from 600 on (the other non-2xx ones among them), the function returns
  what it returns for the same response with the status 200.
\<close>

theorem http_status_handling:
  assumes "net (build_request s prompt ml t) = Inr r"
  shows "(400 \<le> status_code r \<and> status_code r < 600 \<longrightarrow>
      (\<exists>text. fst (query_hugging_face net prompt ml t s) = Inr (PyStr text) \<and>
         text = ''HTTP Error: '' @ str_int (status_code r) @
           (if status_code r < 500 then '' Client Error: '' else '' Server Error: '') @
           reason r @ '' for url: '' @ url r \<and>
         sublist (reason r) text)) \<and>
    (status_code r < 400 \<or> 600 \<le> status_code r \<longrightarrow>
      fst (query_hugging_face net prompt ml t s) =
        fst (query_hugging_face (stub (Inr (r\<lparr>status_code := 200\<rparr>))) prompt ml t s))"
proof (intro conjI impI)
  assume "400 \<le> status_code r \<and> status_code r < 600"
  then show "\<exists>text. fst (query_hugging_face net prompt ml t s) = Inr (PyStr text) \<and>
         text = ''HTTP Error: '' @ str_int (status_code r) @
           (if status_code r < 500 then '' Client Error: '' else '' Server Error: '') @
           reason r @ '' for url: '' @ url r \<and>
         sublist (reason r) text"
    using assms http_error_text by blast
next
  assume "status_code r < 400 \<or> 600 \<le> status_code r"
  then show "fst (query_hugging_face net prompt ml t s) =
      fst (query_hugging_face (stub (Inr (r\<lparr>status_code := 200\<rparr>))) prompt ml t s)"
    using assms by (rule other_status_like_success [rotated])
qed

lemma str_int_404: "str_int 404 = ''404''"
  by code_simp

text \<open>
  The status 404 gives the text of the error whatever the body holds; the status 300
  gives what the status 200 gives with the same body.
\<close>

theorem http_status_handling_witness:
  "fst (query_hugging_face
      (stub (Inr (http_response 404 ''Not Found''
         (PyList [PyDict [(''generated_text'', PyStr ''hi'')]]))))
      ''hello'' None None notebook_state) =
    Inr (PyStr (''HTTP Error: 404 Client Error: Not Found for url: '' @
      ''https://api-inference.huggingface.co/models/tiiuae/falcon-7b-instruct'')) \<and>
   fst (query_hugging_face
      (stub (Inr (http_response 300 ''Multiple Choices''
         (PyList [PyDict [(''generated_text'', PyStr ''hi'')]]))))
      ''hello'' None None notebook_state) =
    fst (query_hugging_face
      (stub (Inr (http_response 200 ''Multiple Choices''
         (PyList [PyDict [(''generated_text'', PyStr ''hi'')]]))))
      ''hello'' None None notebook_state)"
  using http_status_handling
    [of "stub (Inr (http_response 404 ''Not Found''
           (PyList [PyDict [(''generated_text'', PyStr ''hi'')]])))"
      notebook_state "''hello''" None None
      "http_response 404 ''Not Found'' (PyList [PyDict [(''generated_text'', PyStr ''hi'')]])"]
    http_status_handling
    [of "stub (Inr (http_response 300 ''Multiple Choices''
           (PyList [PyDict [(''generated_text'', PyStr ''hi'')]])))"
      notebook_state "''hello''" None None
      "http_response 300 ''Multiple Choices''
         (PyList [PyDict [(''generated_text'', PyStr ''hi'')]])"]
  by (simp add: stub_def http_response_def str_int_404)

subsection \<open>The value returned\<close>

lemma get_returns:
  assumes "get first k d = Inr v"
  shows "\<exists>kvs. first = PyDict kvs \<and> (map_of kvs k = Some v \<or> v = d)"
  using assms by (cases first) (auto simp: raise_def split: option.splits)

lemma getitem0_dict:
  assumes "getitem0 j = Inr (PyDict kvs)"
  shows "\<exists>rest. j = PyList (PyDict kvs # rest)"
  using assms by (cases j rule: getitem0.cases) (auto simp: raise_def)

text \<open>
  C2 says that the function returns a string whatever the transport does, and so does
  the function's docstring (\<^verbatim>\<open>Returns: - str: The model's response.\<close>). The code
  does not: line 141 hands on whatever the \<^verbatim>\<open>generated_text\<close> field holds. With the
  status 200 and the body \<^verbatim>\<open>[{"generated_text": null}]\<close> the function returns \<^verbatim>\<open>None\<close>,
  which is no string.
\<close>

theorem null_field_returns_None:
  "fst (query_hugging_face
      (stub (Inr (http_response 200 ''OK'' (PyList [PyDict [(''generated_text'', PyNone)]]))))
      ''hello'' None None notebook_state) = Inr PyNone \<and>
   \<not> is_str PyNone"
  by (simp add: fst_query_response stub_def http_response_def raise_for_status_def)

text \<open>
  What does hold. When the exceptions that \<^verbatim>\<open>requests.post\<close> and \<^verbatim>\<open>response.json()\<close>
  raise derive from \<^verbatim>\<open>Exception\<close>, no exception leaves the function, and the value
  returned is a string unless it is the value of the \<^verbatim>\<open>generated_text\<close> field of the
  first element of the response's list.
\<close>

lemma no_exception_leaves:
  assumes post: "\<And>e. net (build_request s prompt ml t) = Inl e \<Longrightarrow> isinstance e Exception"
    and json: "\<And>r e. net (build_request s prompt ml t) = Inr r \<Longrightarrow> json_result r = Inl e \<Longrightarrow>
      isinstance e Exception"
  shows "\<exists>v. fst (query_hugging_face net prompt ml t s) = Inr v \<and>
     (is_str v \<or>
      (\<exists>r kvs rest. net (build_request s prompt ml t) = Inr r \<and>
         json_result r = Inr (PyList (PyDict kvs # rest)) \<and>
         map_of kvs ''generated_text'' = Some v))"
proof (cases "net (build_request s prompt ml t)")
  case (Inl e)
  then show ?thesis
    using handlers_returns_text [OF post [OF Inl]] by (auto simp: fst_query_raised)
next
  case (Inr r)
  note resp = this
  show ?thesis
  proof (cases "raise_for_status r")
    case (Inl e)
    then show ?thesis
      using resp handlers_returns_text [OF raise_for_status_Exception [OF Inl]]
      by (auto simp: fst_query_response)
  next
    case ok: (Inr u)
    show ?thesis
    proof (cases "json_result r")
      case (Inl e)
      then show ?thesis
        using resp ok handlers_returns_text [OF json [OF resp Inl]]
        by (auto simp: fst_query_response)
    next
      case body: (Inr j)
      show ?thesis
      proof (cases "getitem0 j")
        case (Inl e)
        then show ?thesis
          using resp ok body handlers_returns_text [OF getitem0_Exception [OF Inl]]
          by (auto simp: fst_query_response)
      next
        case first: (Inr x)
        show ?thesis
        proof (cases "get x ''generated_text'' (PyStr ''No response generated.'')")
          case (Inl e)
          then show ?thesis
            using resp ok body first handlers_returns_text [OF get_Exception [OF Inl]]
            by (auto simp: fst_query_response)
        next
          case (Inr v)
          then obtain kvs where x: "x = PyDict kvs"
            and v: "map_of kvs ''generated_text'' = Some v \<or>
              v = PyStr ''No response generated.''"
            using get_returns by blast
          obtain rest where j: "j = PyList (PyDict kvs # rest)"
            using first x getitem0_dict by blast
          have res: "fst (query_hugging_face net prompt ml t s) = Inr v"
            using resp ok body first Inr by (simp add: fst_query_response)
          from v show ?thesis
          proof
            assume "map_of kvs ''generated_text'' = Some v"
            then show ?thesis using res resp body j by blast
          next
            assume "v = PyStr ''No response generated.''"
            then show ?thesis using res by simp
          qed
        qed
      qed
    qed
  qed
qed

text \<open>
  An exception outside \<^verbatim>\<open>Exception\<close> is caught by no clause: a \<^verbatim>\<open>KeyboardInterrupt\<close>
  raised while \<^verbatim>\<open>requests.post\<close> runs leaves the function.
\<close>

lemma keyboard_interrupt_leaves:
  "fst (query_hugging_face (stub (raise KeyboardInterrupt [])) ''hello'' None None
      notebook_state) = raise KeyboardInterrupt []"
  by (simp add: fst_query_raised stub_def raise_def handlers_def isinstance_def)

subsection \<open>The request\<close>

text \<open>
  C3. Every call hands the transport one request whose JSON body holds the prompt
  verbatim under \<^verbatim>\<open>inputs\<close>, and under \<^verbatim>\<open>parameters\<close> the values supplied for
  \<^verbatim>\<open>max_new_tokens\<close> and \<^verbatim>\<open>temperature\<close>, or 200 and 0.7 where the caller omits them.
\<close>

theorem request_body:
  "\<exists>req. posts (snd (query_hugging_face net prompt ml t s)) = posts s @ [req] \<and>
     req_json req =
       PyDict
         [(''inputs'', PyStr prompt),
          (''parameters'', PyDict
             [(''max_new_tokens'', PyInt (case ml of None \<Rightarrow> 200 | Some n \<Rightarrow> n)),
              (''temperature'',
               PyFloat (case t of None \<Rightarrow> 0x3FE6666666666666 | Some x \<Rightarrow> x))])]"
  by (simp add: snd_query build_request_def)

text \<open>
  A call with the prompt alone, \<^verbatim>\<open>query_hugging_face("hello")\<close>: the body sent carries
  the defaults.
\<close>

theorem request_body_witness:
  "req_json (last (posts (snd (query_hugging_face (stub (raise Timeout ''timed out''))
      ''hello'' None None notebook_state)))) =
    PyDict
      [(''inputs'', PyStr ''hello''),
       (''parameters'', PyDict
          [(''max_new_tokens'', PyInt 200),
           (''temperature'', PyFloat 0x3FE6666666666666)])]"
  using request_body
    [of "stub (raise Timeout ''timed out'')" "''hello''" None None notebook_state]
  by auto

text \<open>
  C8. Every call issues exactly one POST: to the URL made of the fixed base path and
  \<^verbatim>\<open>MODEL_NAME\<close>, with the header \<^verbatim>\<open>Authorization: Bearer \<close> and \<^verbatim>\<open>API_KEY\<close>, and with
  the timeout 10.
\<close>

theorem one_post:
  "\<exists>req. posts (snd (query_hugging_face net prompt ml t s)) = posts s @ [req] \<and>
     req_method req = ''POST'' \<and>
     req_url req = ''https://api-inference.huggingface.co/models/'' @ MODEL_NAME s \<and>
     req_headers req = [(''Authorization'', ''Bearer '' @ API_KEY s)] \<and>
     req_timeout req = 10"
  by (simp add: snd_query build_request_def)

theorem one_post_witness:
  "length (posts (snd (query_hugging_face (stub (raise Timeout ''timed out''))
      ''hello'' None None notebook_state))) = 1 \<and>
   req_url (last (posts (snd (query_hugging_face (stub (raise Timeout ''timed out''))
      ''hello'' None None notebook_state)))) =
    ''https://api-inference.huggingface.co/models/tiiuae/falcon-7b-instruct'' \<and>
   req_headers (last (posts (snd (query_hugging_face (stub (raise Timeout ''timed out''))
      ''hello'' None None notebook_state)))) = [(''Authorization'', ''Bearer hf_key'')]"
  using one_post
    [of "stub (raise Timeout ''timed out'')" "''hello''" None None notebook_state]
  by (auto simp: notebook_state_def)

subsection \<open>No state kept between calls\<close>

text \<open>
  C9. A call leaves \<^verbatim>\<open>API_KEY\<close> and \<^verbatim>\<open>MODEL_NAME\<close> as they were: all it does to the state
  is to print its debug line and to send its request. Its result depends on its
  arguments, the configuration and the answer of the transport only: two calls with the
  same arguments, in states that agree on the configuration (and differ in anything
  else), whose transports answer the request alike, return the same.
\<close>

theorem stateless:
  assumes "API_KEY s' = API_KEY s" and "MODEL_NAME s' = MODEL_NAME s"
    and "net' (build_request s' prompt ml t) = net (build_request s prompt ml t)"
  shows "snd (query_hugging_face net prompt ml t s) =
      s\<lparr>stdout := stdout s @ [debug_line s],
        posts := posts s @ [build_request s prompt ml t]\<rparr> \<and>
    API_KEY (snd (query_hugging_face net prompt ml t s)) = API_KEY s \<and>
    MODEL_NAME (snd (query_hugging_face net prompt ml t s)) = MODEL_NAME s \<and>
    fst (query_hugging_face net' prompt ml t s') = fst (query_hugging_face net prompt ml t s)"
proof -
  have "fst (query_hugging_face net' prompt ml t s') =
      fst (query_hugging_face net prompt ml t s)"
  proof (cases "net (build_request s prompt ml t)")
    case (Inl e)
    then show ?thesis using assms(3) by (simp add: fst_query_raised)
  next
    case (Inr r)
    then show ?thesis using assms(3) by (simp add: fst_query_response)
  qed
  then show ?thesis by (simp add: snd_query)
qed

text \<open>
  A second call, made after the first has printed its line and sent its request, with a
  transport that answers as before, returns what the first call returned.
\<close>

theorem stateless_witness:
  "fst (query_hugging_face
      (stub (Inr (http_response 200 ''OK''
         (PyList [PyDict [(''generated_text'', PyStr ''2+2=4'')]]))))
      ''2+2=?'' (Some 50) (Some 0)
      (snd (query_hugging_face (stub (raise Timeout ''timed out'')) ''hello'' None None
         notebook_state))) =
   fst (query_hugging_face
      (stub (Inr (http_response 200 ''OK''
         (PyList [PyDict [(''generated_text'', PyStr ''2+2=4'')]]))))
      ''2+2=?'' (Some 50) (Some 0) notebook_state) \<and>
   API_KEY (snd (query_hugging_face
      (stub (Inr (http_response 200 ''OK''
         (PyList [PyDict [(''generated_text'', PyStr ''2+2=4'')]]))))
      ''2+2=?'' (Some 50) (Some 0) notebook_state)) = ''hf_key''"
  using stateless
    [of "snd (query_hugging_face (stub (raise Timeout ''timed out'')) ''hello'' None None
           notebook_state)"
      notebook_state
      "stub (Inr (http_response 200 ''OK''
         (PyList [PyDict [(''generated_text'', PyStr ''2+2=4'')]])))"
      "''2+2=?''" "Some 50" "Some 0"
      "stub (Inr (http_response 200 ''OK''
         (PyList [PyDict [(''generated_text'', PyStr ''2+2=4'')]])))"]
  by (simp add: snd_query stub_def notebook_state_def)

end
